theory Spec2Isabelle
  imports Main "HOL-Library.Word"
begin

section \<open>JavaScript strings\<close>

text \<open>
  A JavaScript string is a sequence of UTF-16 code units; \<open>length\<close>, the string methods
  and regular expressions without the \<open>u\<close> flag all work on code units. The source text
  of the validator is ASCII, so its literals are written as HOL strings and converted
  with \<open>js\<close>.
\<close>

type_synonym code_unit = "16 word"
type_synonym jsstring = "code_unit list"

definition js :: "string \<Rightarrow> jsstring" where
  "js s = map of_char s"

text \<open>
  The code units that \<open>String.prototype.trim\<close> strips and that \<open>\<bsol>s\<close> matches: WhiteSpace
  and LineTerminator of ECMAScript (TAB, LF, VT, FF, CR, SP, NBSP, U+1680, U+2000 to U+200A,
  U+2028, U+2029, U+202F, U+205F, U+3000, U+FEFF).
\<close>

definition isWhiteSpace :: "code_unit \<Rightarrow> bool" where
  "isWhiteSpace c =
     (c = 0x09 \<or> c = 0x0A \<or> c = 0x0B \<or> c = 0x0C \<or> c = 0x0D \<or> c = 0x20 \<or> c = 0xA0 \<or>
      c = 0x1680 \<or> (0x2000 \<le> c \<and> c \<le> 0x200A) \<or> c = 0x2028 \<or> c = 0x2029 \<or>
      c = 0x202F \<or> c = 0x205F \<or> c = 0x3000 \<or> c = 0xFEFF)"

definition trim :: "jsstring \<Rightarrow> jsstring" where
  "trim s = rev (dropWhile isWhiteSpace (rev (dropWhile isWhiteSpace s)))"

definition startsWith :: "jsstring \<Rightarrow> jsstring \<Rightarrow> bool" where
  "startsWith s p = (take (length p) s = p)"

definition endsWith :: "jsstring \<Rightarrow> jsstring \<Rightarrow> bool" where
  "endsWith s p = (length p \<le> length s \<and> drop (length s - length p) s = p)"

text \<open>\<open>s.substring(0, n)\<close>: the first \<open>n\<close> code units, or all of \<open>s\<close> when it is shorter.\<close>

definition substring0 :: "nat \<Rightarrow> jsstring \<Rightarrow> jsstring" where
  "substring0 n s = take n s"

text \<open>
  \<open>toLowerCase\<close> on the code units of ASCII. The validator applies it to the host name of
  a parsed URL only, which the URL parser returns in ASCII (non-ASCII domains come back
  in their \<open>xn--\<close> form).
\<close>

definition lowerUnit :: "code_unit \<Rightarrow> code_unit" where
  "lowerUnit c = (if 0x41 \<le> c \<and> c \<le> 0x5A then c + 0x20 else c)"

definition toLowerCase :: "jsstring \<Rightarrow> jsstring" where
  "toLowerCase s = map lowerUnit s"

text \<open>Number-to-string conversion of a template literal, for natural numbers.\<close>

fun decimal :: "nat \<Rightarrow> jsstring" where
  "decimal n =
     (if n < 10 then [0x30 + of_nat n] else decimal (n div 10) @ [0x30 + of_nat (n mod 10)])"

declare decimal.simps [simp del]

section \<open>Regular expressions\<close>

text \<open>
  The fragment of ECMAScript regular expressions that the validator's literals use:
  character classes \<open>[...]\<close> and \<open>[^...]\<close> over single code units, ranges and \<open>\<bsol>s\<close>; a
  literal character (a class of one); \<open>*\<close> applied to a class; sequence; alternation
  \<open>|\<close>; negative lookahead \<open>(?!...)\<close>; and \<open>$\<close> (no \<open>m\<close> flag: end of input).
\<close>

datatype item = Ch code_unit | Range code_unit code_unit | WhiteSpace

fun in_item :: "code_unit \<Rightarrow> item \<Rightarrow> bool" where
  "in_item c (Ch d) = (c = d)"
| "in_item c (Range lo hi) = (lo \<le> c \<and> c \<le> hi)"
| "in_item c WhiteSpace = isWhiteSpace c"

definition in_class :: "item list \<Rightarrow> code_unit \<Rightarrow> bool" where
  "in_class items c = list_ex (in_item c) items"

datatype regex =
    OneOf "item list"
  | NoneOf "item list"
  | StarOneOf "item list"
  | StarNoneOf "item list"
  | Seq regex regex
  | Alt regex regex
  | NotAhead regex
  | EndOfInput

text \<open>
  \<open>star p s\<close>: every remainder of \<open>s\<close> after a run of code units satisfying \<open>p\<close>, the
  longest run first (greedy, then backtracking to shorter ones).
\<close>

fun star :: "(code_unit \<Rightarrow> bool) \<Rightarrow> jsstring \<Rightarrow> jsstring list" where
  "star p [] = [[]]"
| "star p (c # cs) = (if p c then star p cs @ [c # cs] else [c # cs])"

text \<open>
  \<open>matches r s\<close>: the remainders of \<open>s\<close> after each way of matching \<open>r\<close> at the start
  of \<open>s\<close>, in the order a backtracking matcher tries them.
\<close>

fun matches :: "regex \<Rightarrow> jsstring \<Rightarrow> jsstring list" where
  "matches (OneOf items) s =
     (case s of [] \<Rightarrow> [] | c # cs \<Rightarrow> if in_class items c then [cs] else [])"
| "matches (NoneOf items) s =
     (case s of [] \<Rightarrow> [] | c # cs \<Rightarrow> if in_class items c then [] else [cs])"
| "matches (StarOneOf items) s = star (in_class items) s"
| "matches (StarNoneOf items) s = star (\<lambda>c. \<not> in_class items c) s"
| "matches (Seq r1 r2) s = concat (map (matches r2) (matches r1 s))"
| "matches (Alt r1 r2) s = matches r1 s @ matches r2 s"
| "matches (NotAhead r) s = (if matches r s = [] then [s] else [])"
| "matches EndOfInput s = (if s = [] then [[]] else [])"

text \<open>\<open>RegExp.prototype.test\<close> without the \<open>g\<close> and \<open>y\<close> flags: a match at some position.\<close>

fun test :: "regex \<Rightarrow> jsstring \<Rightarrow> bool" where
  "test r [] = (matches r [] \<noteq> [])"
| "test r (c # cs) = (matches r (c # cs) \<noteq> [] \<or> test r cs)"

definition lit :: "char \<Rightarrow> regex" where
  "lit c = OneOf [Ch (of_char c)]"

definition chars :: "string \<Rightarrow> item list" where
  "chars s = map (\<lambda>c. Ch (of_char c)) s"

section \<open>Results of the validators\<close>

text \<open>
  A validator returns normally or throws an \<open>Error\<close> with a message, after handing zero
  or more lines to \<open>Logger.error\<close>. The outcome is the list of logged lines, in order,
  and the message thrown (\<open>Inl\<close>) or the value returned (\<open>Inr\<close>).
\<close>

type_synonym 'a outcome = "jsstring list \<times> (jsstring + 'a)"

definition throw :: "jsstring \<Rightarrow> 'a outcome" where
  "throw msg = ([], Inl msg)"

definition log_throw :: "jsstring \<Rightarrow> jsstring \<Rightarrow> 'a outcome" where
  "log_throw line msg = ([line], Inl msg)"

definition return_unit :: "unit outcome" where
  "return_unit = ([], Inr ())"

section \<open>security-validation.ts\<close>

definition ALLOWED_FIGMA_DOMAINS :: "jsstring list" where
  "ALLOWED_FIGMA_DOMAINS =
     [js ''api.figma.com'', js ''figma.com'', js ''s3-alpha-sig.figma.com'',
      js ''s3-alpha.figma.com'']"

definition MAX_URL_LENGTH :: nat where "MAX_URL_LENGTH = 2048"
definition MAX_HEADER_KEY_LENGTH :: nat where "MAX_HEADER_KEY_LENGTH = 256"
definition MAX_HEADER_VALUE_LENGTH :: nat where "MAX_HEADER_VALUE_LENGTH = 8192"

subsection \<open>validateUrl\<close>

text \<open>
  The fields of the platform's \<open>URL\<close> object that the validator reads. The constructor
  \<open>new URL(url)\<close> belongs to the platform, not to this repository: it is the parameter
  \<open>newURL\<close>, returning \<open>None\<close> where the constructor throws.
\<close>

record URL =
  protocol :: jsstring
  hostname :: jsstring

text \<open>\<open>/[;&|`$(){}[\<bsol>]\<bsol>\<bsol>'"<>]/\<close>\<close>

definition dangerousChars :: regex where
  "dangerousChars = OneOf (chars [CHR '';'', CHR ''&'', CHR ''|'', CHR ''`'', CHR ''$'',
     CHR ''('', CHR '')'', CHR ''{'', CHR ''}'', CHR ''['', CHR '']'', CHR 0x5C, CHR 0x27,
     CHR 0x22, CHR ''<'', CHR ''>''])"

definition isAllowedDomain :: "jsstring \<Rightarrow> bool" where
  "isAllowedDomain hostname' =
     list_ex (\<lambda>domain. hostname' = domain \<or> endsWith hostname' (js ''.'' @ domain))
       ALLOWED_FIGMA_DOMAINS"

text \<open>
  The parameter \<open>url\<close> has type \<open>string\<close>, so of the first guard
  \<open>!url || typeof url !== "string"\<close> only the empty string remains.
\<close>

definition validateUrl :: "(jsstring \<Rightarrow> URL option) \<Rightarrow> jsstring \<Rightarrow> unit outcome" where
  "validateUrl newURL url =
     (if url = [] then throw (js ''URL must be a non-empty string'')
      else if length url > MAX_URL_LENGTH then
        throw (js ''URL exceeds maximum length of '' @ decimal MAX_URL_LENGTH @ js '' characters'')
      else case newURL url of
        None \<Rightarrow> throw (js ''Invalid URL format'')
      | Some parsedUrl \<Rightarrow>
          if protocol parsedUrl \<notin> set [js ''https:'', js ''http:''] then
            throw (js ''Only HTTP and HTTPS URLs are allowed'')
          else if test dangerousChars url then
            log_throw
              (js ''[Security] Blocked URL with dangerous characters: '' @ substring0 100 url
                 @ js ''...'')
              (js ''URL contains potentially dangerous characters'')
          else
            let hostname' = toLowerCase (hostname parsedUrl) in
            if \<not> isAllowedDomain hostname' then
              log_throw (js ''[Security] Blocked URL to unauthorized domain: '' @ hostname')
                (js ''URL domain '' @ [0x27] @ hostname' @ [0x27]
                   @ js '' is not in the allowed list'')
            else return_unit)"

subsection \<open>validateHeaders\<close>

text \<open>\<open>/[;&|`$(){}[\<bsol>]\<bsol>\<bsol>'"<>\<bsol>n\<bsol>r]/\<close>\<close>

definition dangerousKeyChars :: regex where
  "dangerousKeyChars = OneOf (chars [CHR '';'', CHR ''&'', CHR ''|'', CHR ''`'', CHR ''$'',
     CHR ''('', CHR '')'', CHR ''{'', CHR ''}'', CHR ''['', CHR '']'', CHR 0x5C, CHR 0x27,
     CHR 0x22, CHR ''<'', CHR ''>'', CHR 0x0A, CHR 0x0D])"

text \<open>\<open>/[`$(){}[\<bsol>]\<bsol>\<bsol><>\<bsol>n\<bsol>r]/\<close>\<close>

definition dangerousValueChars :: regex where
  "dangerousValueChars = OneOf (chars [CHR ''`'', CHR ''$'', CHR ''('', CHR '')'', CHR ''{'',
     CHR ''}'', CHR ''['', CHR '']'', CHR 0x5C, CHR ''<'', CHR ''>'', CHR 0x0A, CHR 0x0D])"

text \<open>
  \<open>/;\<bsol>s*[a-zA-Z_][a-zA-Z0-9_]*\<bsol>s*=/\<close>, \<open>/&&(?![^"]*"[^"]*$)/\<close>,
  \<open>/\<bsol>|\<bsol>|(?![^"]*"[^"]*$)/\<close> and \<open>/\<bsol>$\<bsol>(|\<bsol>$\<bsol>{/\<close>
\<close>

definition variableAssignment :: regex where
  "variableAssignment =
     Seq (lit CHR '';'') (Seq (StarOneOf [WhiteSpace])
       (Seq (OneOf [Range (of_char CHR ''a'') (of_char CHR ''z''),
                    Range (of_char CHR ''A'') (of_char CHR ''Z''), Ch (of_char CHR ''_'')])
         (Seq (StarOneOf [Range (of_char CHR ''a'') (of_char CHR ''z''),
                          Range (of_char CHR ''A'') (of_char CHR ''Z''),
                          Range (of_char CHR ''0'') (of_char CHR ''9''), Ch (of_char CHR ''_'')])
           (Seq (StarOneOf [WhiteSpace]) (lit CHR ''='')))))"

definition oneQuoteToEnd :: regex where
  "oneQuoteToEnd =
     Seq (StarNoneOf [Ch 0x22]) (Seq (OneOf [Ch 0x22]) (Seq (StarNoneOf [Ch 0x22]) EndOfInput))"

definition andChain :: regex where
  "andChain = Seq (lit CHR ''&'') (Seq (lit CHR ''&'') (NotAhead oneQuoteToEnd))"

definition orChain :: regex where
  "orChain = Seq (lit CHR ''|'') (Seq (lit CHR ''|'') (NotAhead oneQuoteToEnd))"

definition commandSubstitution :: regex where
  "commandSubstitution =
     Alt (Seq (lit CHR ''$'') (lit CHR ''(''))  (Seq (lit CHR ''$'') (lit CHR ''{''))"

definition injectionPatterns :: "regex list" where
  "injectionPatterns = [variableAssignment, andChain, orChain, commandSubstitution]"

text \<open>
  The body of the loop over \<open>Object.entries(headers)\<close>, on the list of pairs in the order
  \<open>Object.entries\<close> yields them. Keys and values have type \<open>string\<close>, so of \<open>!key\<close> and
  \<open>!value\<close> only the empty string remains. The inner loop throws at the first pattern
  that matches; the line it logs and the message do not depend on which one it is.
\<close>

fun validateHeaderEntries :: "(jsstring \<times> jsstring) list \<Rightarrow> unit outcome" where
  "validateHeaderEntries [] = return_unit"
| "validateHeaderEntries ((key, value) # entries) =
     (if key = [] then throw (js ''Header key must be a non-empty string'')
      else if value = [] then throw (js ''Header value must be a non-empty string'')
      else if length key > MAX_HEADER_KEY_LENGTH then
        throw (js ''Header key exceeds maximum length of '' @ decimal MAX_HEADER_KEY_LENGTH
                 @ js '' characters'')
      else if length value > MAX_HEADER_VALUE_LENGTH then
        throw (js ''Header value exceeds maximum length of '' @ decimal MAX_HEADER_VALUE_LENGTH
                 @ js '' characters'')
      else if test dangerousKeyChars key then
        log_throw (js ''[Security] Blocked header key with dangerous characters: '' @ key)
          (js ''Header key contains potentially dangerous characters'')
      else if test dangerousValueChars value then
        log_throw
          (js ''[Security] Blocked header value with dangerous characters: ''
             @ substring0 50 value @ js ''...'')
          (js ''Header value contains potentially dangerous characters'')
      else if list_ex (\<lambda>pattern. test pattern value) injectionPatterns then
        log_throw
          (js ''[Security] Blocked header value with injection pattern: ''
             @ substring0 50 value @ js ''...'')
          (js ''Header value contains potential injection pattern'')
      else validateHeaderEntries entries)"

text \<open>\<open>headers\<close> is \<open>undefined\<close> (\<open>None\<close>) or a record of strings.\<close>

definition validateHeaders :: "(jsstring \<times> jsstring) list option \<Rightarrow> unit outcome" where
  "validateHeaders headers =
     (case headers of None \<Rightarrow> return_unit | Some entries \<Rightarrow> validateHeaderEntries entries)"

subsection \<open>validateCurlCommand\<close>

text \<open>
  \<open>/;\<bsol>s*[^'"]/\<close>, \<open>/\<bsol>|\<bsol>s*[^'"]/\<close>, \<open>/&&\<bsol>s*[^'"]/\<close>, \<open>/\<bsol>|\<bsol>|\<bsol>s*[^'"]/\<close>,
  \<open>/`[^`]*`/\<close> and \<open>/\<bsol>$\<bsol>([^)]*\<bsol>)/\<close>
\<close>

definition notQuoteAfterSpace :: regex where
  "notQuoteAfterSpace = Seq (StarOneOf [WhiteSpace]) (NoneOf [Ch 0x27, Ch 0x22])"

definition dangerousPatterns :: "regex list" where
  "dangerousPatterns =
     [Seq (lit CHR '';'') notQuoteAfterSpace,
      Seq (lit CHR ''|'') notQuoteAfterSpace,
      Seq (lit CHR ''&'') (Seq (lit CHR ''&'') notQuoteAfterSpace),
      Seq (lit CHR ''|'') (Seq (lit CHR ''|'') notQuoteAfterSpace),
      Seq (lit CHR ''`'') (Seq (StarNoneOf [Ch (of_char CHR ''`'')]) (lit CHR ''`'')),
      Seq (lit CHR ''$'') (Seq (lit CHR ''('')
        (Seq (StarNoneOf [Ch (of_char CHR '')'')]) (lit CHR '')'')))]"

definition validateCurlCommand :: "jsstring \<Rightarrow> unit outcome" where
  "validateCurlCommand command =
     (if command = [] then throw (js ''Command must be a non-empty string'')
      else if \<not> startsWith (trim command) (js ''curl '') then
        throw (js ''Command must start with curl'')
      else if list_ex (\<lambda>pattern. test pattern command) dangerousPatterns then
        log_throw
          (js ''[Security] Blocked curl command with dangerous pattern: ''
             @ substring0 100 command @ js ''...'')
          (js ''Curl command contains potentially dangerous patterns'')
      else return_unit)"

section \<open>fetch-with-retry.ts\<close>

text \<open>
  Modelled from the spec: the file \<open>fetch-with-retry.ts\<close> is not among the sources (only
  its test is), so \<open>fetchWithRetry\<close> follows section 4.2 of the specification. The
  collaborators and the constants the specification leaves open are the fields of the
  environment: the platform's URL constructor, native fetch and shell exec (each may
  answer differently at each call, so they take the number of earlier calls), the
  assembly of the command line, the reading of the captured stdout, the line handed to
  the logger when an attempt fails (from the URL and the error), and the maximum number
  of attempts. Of the request options only the headers are modelled.
\<close>

type_synonym headers = "(jsstring \<times> jsstring) list option"

record 'r environment =
  parseUrl :: "jsstring \<Rightarrow> URL option"
  nativeFetch :: "nat \<Rightarrow> jsstring \<Rightarrow> headers \<Rightarrow> jsstring + 'r"
  execAsync :: "nat \<Rightarrow> jsstring \<Rightarrow> jsstring + jsstring \<times> jsstring"
  assembleCommand :: "jsstring \<Rightarrow> headers \<Rightarrow> jsstring"
  parsePayload :: "jsstring \<Rightarrow> 'r"
  failureLine :: "jsstring \<Rightarrow> jsstring \<Rightarrow> jsstring"
  maxAttempts :: nat

text \<open>
  Modelled from the spec: what a logical call has done to the outside so far. The URLs
  handed to native fetch and the command lines handed to shell exec (oldest first), the
  lines handed to the logger (by the validators and by the failed attempts), and the
  number of backoff waits.
\<close>

record io =
  fetched :: "jsstring list"
  executed :: "jsstring list"
  logged :: "jsstring list"
  waits :: nat

definition io0 :: io where
  "io0 = \<lparr>fetched = [], executed = [], logged = [], waits = 0\<rparr>"

text \<open>
  Modelled from the spec: how one attempt ends. It yields a response, is blocked by a
  validator (never retried), or fails in transport (retried while the budget lasts).
\<close>

datatype 'r attempt = Succeeded 'r | Blocked jsstring | Failed jsstring

text \<open>Modelled from the spec: step 1, the URL is validated, then the headers.\<close>

definition validateRequest :: "'r environment \<Rightarrow> jsstring \<Rightarrow> headers \<Rightarrow> unit outcome" where
  "validateRequest env url headers =
     (case validateUrl (parseUrl env) url of
        (lines, Inl msg) \<Rightarrow> (lines, Inl msg)
      | (lines, Inr _) \<Rightarrow>
          (case validateHeaders headers of (lines', result) \<Rightarrow> (lines @ lines', result)))"

text \<open>
  Modelled from the spec: one attempt, steps 1 to 4, validation being run again at every
  attempt (step 5). Native fetch is tried first; when it rejects, the command line is
  assembled, validated and executed. A rejection of shell exec, or any captured stderr, is
  the failure of the attempt; the specification does not word the error of the second
  case, and the model takes the captured stderr itself. An attempt that fails invokes the
  logger once (section 8: with both collaborators rejecting, the logger is invoked as
  many times as there are attempts); the specification does not word the line.
\<close>

definition attempt :: "'r environment \<Rightarrow> jsstring \<Rightarrow> headers \<Rightarrow> io \<Rightarrow> io \<times> 'r attempt" where
  "attempt env url headers w =
     (case validateRequest env url headers of
        (lines, Inl msg) \<Rightarrow> (w\<lparr>logged := logged w @ lines\<rparr>, Blocked msg)
      | (lines, Inr _) \<Rightarrow>
          let w1 = w\<lparr>fetched := fetched w @ [url], logged := logged w @ lines\<rparr> in
          case nativeFetch env (length (fetched w)) url headers of
            Inr response \<Rightarrow> (w1, Succeeded response)
          | Inl _ \<Rightarrow>
              let command = assembleCommand env url headers in
              case validateCurlCommand command of
                (lines', Inl msg) \<Rightarrow> (w1\<lparr>logged := logged w1 @ lines'\<rparr>, Blocked msg)
              | (lines', Inr _) \<Rightarrow>
                  let w2 = w1\<lparr>executed := executed w1 @ [command],
                              logged := logged w1 @ lines'\<rparr> in
                  case execAsync env (length (executed w1)) command of
                    Inl err \<Rightarrow>
                      (w2\<lparr>logged := logged w2 @ [failureLine env url err]\<rparr>, Failed err)
                  | Inr (stdout, stderr) \<Rightarrow>
                      if stderr \<noteq> [] then
                        (w2\<lparr>logged := logged w2 @ [failureLine env url stderr]\<rparr>,
                         Failed stderr)
                      else (w2, Succeeded (parsePayload env stdout)))"

text \<open>
  Modelled from the spec: steps 5 and 6. \<open>retries\<close> is the number of attempts still
  allowed after the current one; a blocked attempt is surfaced under the prefix
  \<open>Security validation failed: \<close>, an exhausted budget as the last transport error.
\<close>

fun retryLoop ::
  "'r environment \<Rightarrow> jsstring \<Rightarrow> headers \<Rightarrow> nat \<Rightarrow> io \<Rightarrow> io \<times> (jsstring + 'r)" where
  "retryLoop env url headers retries w =
     (case attempt env url headers w of
        (w', Succeeded response) \<Rightarrow> (w', Inr response)
      | (w', Blocked msg) \<Rightarrow> (w', Inl (js ''Security validation failed: '' @ msg))
      | (w', Failed err) \<Rightarrow>
          (case retries of
             0 \<Rightarrow> (w', Inl err)
           | Suc remaining \<Rightarrow> retryLoop env url headers remaining (w'\<lparr>waits := waits w' + 1\<rparr>)))"

declare retryLoop.simps [simp del]

text \<open>
  Modelled from the spec: the logical call. The first attempt is made before the budget
  is consulted, so a budget of zero behaves as a budget of one.
\<close>

definition fetchWithRetry ::
  "'r environment \<Rightarrow> jsstring \<Rightarrow> headers \<Rightarrow> io \<times> (jsstring + 'r)" where
  "fetchWithRetry env url headers = retryLoop env url headers (maxAttempts env - 1) io0"

section \<open>Vocabulary of the specification and example inputs\<close>

text \<open>
  The shell metacharacters as the specification lists them:
  \<open>; & | ` $ ( ) { } [ ] \<bsol> ' " < >\<close>.
\<close>

definition shellMetacharacters :: "code_unit list" where
  "shellMetacharacters = map of_char [CHR '';'', CHR ''&'', CHR ''|'', CHR ''`'', CHR ''$'',
     CHR ''('', CHR '')'', CHR ''{'', CHR ''}'', CHR ''['', CHR '']'', CHR 0x5C, CHR 0x27,
     CHR 0x22, CHR ''<'', CHR ''>'']"

text \<open>
  An identifier: a letter of ASCII or an underscore, then letters, digits and underscores.
\<close>

definition isIdentStart :: "code_unit \<Rightarrow> bool" where
  "isIdentStart c =
     ((of_char CHR ''a'' \<le> c \<and> c \<le> of_char CHR ''z'') \<or>
      (of_char CHR ''A'' \<le> c \<and> c \<le> of_char CHR ''Z'') \<or> c = of_char CHR ''_'')"

definition isIdentChar :: "code_unit \<Rightarrow> bool" where
  "isIdentChar c = (isIdentStart c \<or> (of_char CHR ''0'' \<le> c \<and> c \<le> of_char CHR ''9''))"

text \<open>
  What the platform's \<open>new URL\<close> yields on the URLs used as examples below (scheme with
  its colon, host name); the table is used at these inputs only.
\<close>

definition newURL_examples :: "jsstring \<Rightarrow> URL option" where
  "newURL_examples = map_of
     [(js ''javascript:alert(1)'', \<lparr>protocol = js ''javascript:'', hostname = []\<rparr>),
      (js ''https://api.figma.com/files/abc; rm -rf /'',
         \<lparr>protocol = js ''https:'', hostname = js ''api.figma.com''\<rparr>),
      (js ''https://subdomain.api.figma.com/files/abc'',
         \<lparr>protocol = js ''https:'', hostname = js ''subdomain.api.figma.com''\<rparr>),
      (js ''https://evil.com/malicious'',
         \<lparr>protocol = js ''https:'', hostname = js ''evil.com''\<rparr>),
      (js ''https://api.figma.com/v1/files/a%3Bb%24%28id%29'',
         \<lparr>protocol = js ''https:'', hostname = js ''api.figma.com''\<rparr>)]"

text \<open>
  An assembler of the kind the specification describes (each header a quoted
  \<open>-H 'Key: Value'\<close> token, the URL quoted as one token) and an environment in which
  native fetch and shell exec reject at every call, with a budget of three attempts.
\<close>

definition quoted_curl :: "jsstring \<Rightarrow> headers \<Rightarrow> jsstring" where
  "quoted_curl url headers =
     js ''curl -s -S --fail-with-body -L ''
     @ concat (map (\<lambda>(key, value). js ''-H '' @ [0x27] @ key @ js '': '' @ value @ [0x27] @ js '' '')
         (case headers of None \<Rightarrow> [] | Some entries \<Rightarrow> entries))
     @ [0x27] @ url @ [0x27]"

definition failing_environment :: "jsstring environment" where
  "failing_environment =
     \<lparr>parseUrl = newURL_examples,
      nativeFetch = (\<lambda>n url headers. Inl (js ''Fetch failed'')),
      execAsync = (\<lambda>n command. Inl (js ''curl failed, call '' @ decimal (n + 1))),
      assembleCommand = quoted_curl,
      parsePayload = (\<lambda>stdout. stdout),
      failureLine = (\<lambda>url err. js ''[fetchWithRetry] attempt failed: '' @ err),
      maxAttempts = 3\<rparr>"

section \<open>Facts about the string primitives\<close>

lemma decimal_2048: "decimal 2048 = js ''2048''"
  by (simp add: decimal.simps js_def)

lemma decimal_256: "decimal 256 = js ''256''"
  by (simp add: decimal.simps js_def)

lemma decimal_8192: "decimal 8192 = js ''8192''"
  by (simp add: decimal.simps js_def)

lemma endsWith_iff: "endsWith s p \<longleftrightarrow> (\<exists>q. s = q @ p)"
proof
  assume "endsWith s p"
  then have "s = take (length s - length p) s @ p"
    by (metis append_take_drop_id endsWith_def)
  then show "\<exists>q. s = q @ p" ..
next
  assume "\<exists>q. s = q @ p"
  then show "endsWith s p" by (auto simp: endsWith_def)
qed

section \<open>Facts about the regular-expression matcher\<close>

lemma test_OneOf: "test (OneOf items) s \<longleftrightarrow> (\<exists>c\<in>set s. in_class items c)"
  by (induction s) auto

lemma in_class_chars: "in_class (chars cs) c \<longleftrightarrow> c \<in> set (map of_char cs)"
  by (induction cs) (auto simp: in_class_def chars_def)

lemma in_class_WhiteSpace: "in_class [WhiteSpace] c \<longleftrightarrow> isWhiteSpace c"
  by (simp add: in_class_def)

lemma star_I: "\<forall>x\<in>set xs. p x \<Longrightarrow> s \<in> set (star p (xs @ s))"
proof (induction xs)
  case Nil
  show ?case by (cases s) auto
next
  case (Cons x xs)
  then show ?case by simp
qed

lemma star_D: "t \<in> set (star p s) \<Longrightarrow> \<exists>xs. s = xs @ t \<and> (\<forall>x\<in>set xs. p x)"
proof (induction s)
  case Nil
  then show ?case by simp
next
  case (Cons c s)
  show ?case
  proof (cases "t = c # s")
    case True
    then show ?thesis by simp
  next
    case False
    with Cons.prems have "p c" and "t \<in> set (star p s)"
      by (auto split: if_splits)
    with Cons.IH obtain xs where "s = xs @ t" "\<forall>x\<in>set xs. p x" by blast
    with \<open>p c\<close> have "c # s = (c # xs) @ t \<and> (\<forall>x\<in>set (c # xs). p x)" by simp
    then show ?thesis by blast
  qed
qed

lemma matches_Seq_iff:
  "t \<in> set (matches (Seq r1 r2) s) \<longleftrightarrow> (\<exists>m\<in>set (matches r1 s). t \<in> set (matches r2 m))"
  by auto

lemma matches_Seq_I:
  "m \<in> set (matches r1 s) \<Longrightarrow> t \<in> set (matches r2 m) \<Longrightarrow> t \<in> set (matches (Seq r1 r2) s)"
  by auto

lemma matches_lit_iff: "t \<in> set (matches (lit a) s) \<longleftrightarrow> s = of_char a # t"
  by (cases s) (auto simp: lit_def in_class_def)

lemma matches_OneOf_iff:
  "t \<in> set (matches (OneOf items) s) \<longleftrightarrow> (\<exists>c. s = c # t \<and> in_class items c)"
  by (cases s) auto

lemma matches_NoneOf_iff:
  "t \<in> set (matches (NoneOf items) s) \<longleftrightarrow> (\<exists>c. s = c # t \<and> \<not> in_class items c)"
  by (cases s) auto

lemma matches_StarOneOf_I:
  "\<forall>x\<in>set xs. in_class items x \<Longrightarrow> s \<in> set (matches (StarOneOf items) (xs @ s))"
  by (simp add: star_I)

lemma matches_StarNoneOf_I:
  "\<forall>x\<in>set xs. \<not> in_class items x \<Longrightarrow> s \<in> set (matches (StarNoneOf items) (xs @ s))"
  by (simp add: star_I)

lemma matches_up_to_first:
  assumes "a \<in> set rest"
  shows "\<exists>v. v \<in> set (matches (Seq (StarNoneOf [Ch a]) (OneOf [Ch a])) rest)"
proof -
  from split_list_first [OF assms] obtain u v where rest: "rest = u @ a # v" and "a \<notin> set u"
    by blast
  then have "a # v \<in> set (matches (StarNoneOf [Ch a]) (u @ a # v))"
    by (intro matches_StarNoneOf_I) (auto simp: in_class_def)
  moreover have "v \<in> set (matches (OneOf [Ch a]) (a # v))"
    by (simp add: in_class_def)
  ultimately have "v \<in> set (matches (Seq (StarNoneOf [Ch a]) (OneOf [Ch a])) rest)"
    unfolding rest by (rule matches_Seq_I)
  then show ?thesis ..
qed

lemma test_I: "t \<in> set (matches r s) \<Longrightarrow> test r (p @ s)"
proof (induction p)
  case Nil
  then show ?case by (cases s) auto
next
  case (Cons c p)
  then show ?case by simp
qed

section \<open>Facts about validateUrl\<close>

lemma test_dangerousChars:
  "test dangerousChars s \<longleftrightarrow> (\<exists>c\<in>set s. c \<in> set shellMetacharacters)"
  unfolding dangerousChars_def shellMetacharacters_def test_OneOf in_class_chars ..

lemma isAllowedDomain_iff:
  "isAllowedDomain h \<longleftrightarrow>
     (\<exists>d\<in>set ALLOWED_FIGMA_DOMAINS. h = d \<or> (\<exists>q. h = q @ js ''.'' @ d))"
  by (simp add: isAllowedDomain_def list_ex_iff endsWith_iff)

lemma ALLOWED_FIGMA_DOMAINS_set:
  "set ALLOWED_FIGMA_DOMAINS =
     {js ''api.figma.com'', js ''figma.com'', js ''s3-alpha-sig.figma.com'', js ''s3-alpha.figma.com''}"
  by (simp add: ALLOWED_FIGMA_DOMAINS_def)

lemma newURL_examples_simps:
  "newURL_examples (js ''javascript:alert(1)'') = Some \<lparr>protocol = js ''javascript:'', hostname = []\<rparr>"
  "newURL_examples (js ''https://api.figma.com/files/abc; rm -rf /'') =
     Some \<lparr>protocol = js ''https:'', hostname = js ''api.figma.com''\<rparr>"
  "newURL_examples (js ''https://subdomain.api.figma.com/files/abc'') =
     Some \<lparr>protocol = js ''https:'', hostname = js ''subdomain.api.figma.com''\<rparr>"
  "newURL_examples (js ''https://evil.com/malicious'') =
     Some \<lparr>protocol = js ''https:'', hostname = js ''evil.com''\<rparr>"
  "newURL_examples (js ''https://api.figma.com/v1/files/a%3Bb%24%28id%29'') =
     Some \<lparr>protocol = js ''https:'', hostname = js ''api.figma.com''\<rparr>"
  by (simp_all add: newURL_examples_def js_def)

lemma validateUrl_reaches_domain_check:
  assumes "url \<noteq> []" and "length url \<le> 2048" and "newURL url = Some u"
    and "protocol u = js ''https:'' \<or> protocol u = js ''http:''"
    and "\<forall>c\<in>set url. c \<notin> set shellMetacharacters"
  shows "validateUrl newURL url =
     (if isAllowedDomain (toLowerCase (hostname u)) then return_unit
      else log_throw
        (js ''[Security] Blocked URL to unauthorized domain: '' @ toLowerCase (hostname u))
        (js ''URL domain '' @ [0x27] @ toLowerCase (hostname u) @ [0x27]
           @ js '' is not in the allowed list''))"
proof -
  from assms(5) have "\<not> test dangerousChars url"
    unfolding test_dangerousChars by blast
  with assms(1-4) show ?thesis
    by (simp add: validateUrl_def MAX_URL_LENGTH_def Let_def)
qed

lemma validateUrl_quiet:
  "snd (validateUrl p url) = Inr () \<Longrightarrow> validateUrl p url = ([], Inr ())"
  by (auto simp: validateUrl_def throw_def log_throw_def return_unit_def Let_def
      split: if_splits option.splits)

section \<open>Facts about validateHeaders\<close>

lemma in_class_identStart:
  "in_class [Range (of_char CHR ''a'') (of_char CHR ''z''),
             Range (of_char CHR ''A'') (of_char CHR ''Z''), Ch (of_char CHR ''_'')] c
   \<longleftrightarrow> isIdentStart c"
  by (simp add: in_class_def isIdentStart_def)

lemma in_class_identChar:
  "in_class [Range (of_char CHR ''a'') (of_char CHR ''z''),
             Range (of_char CHR ''A'') (of_char CHR ''Z''),
             Range (of_char CHR ''0'') (of_char CHR ''9''), Ch (of_char CHR ''_'')] c
   \<longleftrightarrow> isIdentChar c"
  by (auto simp: in_class_def isIdentChar_def isIdentStart_def)

lemma test_variableAssignment:
  assumes "list_all isWhiteSpace ws1" "isIdentStart c" "list_all isIdentChar ident"
    "list_all isWhiteSpace ws2"
  shows "test variableAssignment (p @ js '';'' @ ws1 @ c # ident @ ws2 @ js ''='' @ q)"
proof -
  have 5: "q \<in> set (matches (lit CHR ''='') (js ''='' @ q))"
    by (simp add: matches_lit_iff js_def)
  from assms(4) have 4: "js ''='' @ q \<in> set (matches (StarOneOf [WhiteSpace]) (ws2 @ js ''='' @ q))"
    by (intro matches_StarOneOf_I) (simp only: in_class_WhiteSpace list_all_iff)
  from assms(3) have 3: "ws2 @ js ''='' @ q \<in> set (matches
      (StarOneOf [Range (of_char CHR ''a'') (of_char CHR ''z''),
                  Range (of_char CHR ''A'') (of_char CHR ''Z''),
                  Range (of_char CHR ''0'') (of_char CHR ''9''), Ch (of_char CHR ''_'')])
      (ident @ ws2 @ js ''='' @ q))"
    by (intro matches_StarOneOf_I) (simp only: in_class_identChar list_all_iff)
  from assms(2) have 2: "ident @ ws2 @ js ''='' @ q \<in> set (matches
      (OneOf [Range (of_char CHR ''a'') (of_char CHR ''z''),
              Range (of_char CHR ''A'') (of_char CHR ''Z''), Ch (of_char CHR ''_'')])
      (c # ident @ ws2 @ js ''='' @ q))"
    by (simp only: matches_OneOf_iff in_class_identStart) blast
  from assms(1) have 1: "c # ident @ ws2 @ js ''='' @ q \<in> set (matches (StarOneOf [WhiteSpace])
      (ws1 @ c # ident @ ws2 @ js ''='' @ q))"
    by (intro matches_StarOneOf_I) (simp only: in_class_WhiteSpace list_all_iff)
  have 0: "ws1 @ c # ident @ ws2 @ js ''='' @ q \<in> set (matches (lit CHR '';'')
      (js '';'' @ ws1 @ c # ident @ ws2 @ js ''='' @ q))"
    by (simp add: matches_lit_iff js_def)
  have "q \<in> set (matches variableAssignment (js '';'' @ ws1 @ c # ident @ ws2 @ js ''='' @ q))"
    unfolding variableAssignment_def
    by (rule matches_Seq_I [OF 0] matches_Seq_I [OF 1] matches_Seq_I [OF 2]
        matches_Seq_I [OF 3] matches_Seq_I [OF 4] 5)+
  then show ?thesis by (rule test_I)
qed

lemma oneQuoteToEnd_D:
  assumes "matches oneQuoteToEnd q \<noteq> []"
  shows "length (filter (\<lambda>x. x = 0x22) q) = 1"
proof -
  from assms obtain t where "t \<in> set (matches oneQuoteToEnd q)"
    by (cases "matches oneQuoteToEnd q") auto
  then obtain m1 m2 m3 where
    m1: "m1 \<in> set (star (\<lambda>c. \<not> in_class [Ch 0x22] c) q)" and
    m2: "m2 \<in> set (matches (OneOf [Ch 0x22]) m1)" and
    m3: "m3 \<in> set (star (\<lambda>c. \<not> in_class [Ch 0x22] c) m2)" and
    t: "t \<in> set (matches EndOfInput m3)"
    unfolding oneQuoteToEnd_def matches_Seq_iff by auto
  from t have "m3 = []" by (simp split: if_splits)
  with star_D [OF m3] have ys: "\<forall>x\<in>set m2. x \<noteq> 0x22"
    by (auto simp: in_class_def)
  from m2 have "m1 = 0x22 # m2"
    by (auto simp: matches_OneOf_iff in_class_def)
  with star_D [OF m1] obtain xs where "q = xs @ 0x22 # m2" "\<forall>x\<in>set xs. x \<noteq> 0x22"
    by (auto simp: in_class_def)
  with ys show ?thesis
    by (simp add: filter_empty_conv)
qed

lemma test_andChain:
  assumes "length (filter (\<lambda>x. x = 0x22) q) \<noteq> 1"
  shows "test andChain (p @ js ''&&'' @ q)"
proof -
  from assms have "matches oneQuoteToEnd q = []"
    using oneQuoteToEnd_D by blast
  then have "q \<in> set (matches andChain (js ''&&'' @ q))"
    by (simp add: andChain_def js_def lit_def in_class_def)
  then show ?thesis by (rule test_I)
qed

lemma test_orChain:
  assumes "length (filter (\<lambda>x. x = 0x22) q) \<noteq> 1"
  shows "test orChain (p @ js ''||'' @ q)"
proof -
  from assms have "matches oneQuoteToEnd q = []"
    using oneQuoteToEnd_D by blast
  then have "q \<in> set (matches orChain (js ''||'' @ q))"
    by (simp add: orChain_def js_def lit_def in_class_def)
  then show ?thesis by (rule test_I)
qed

lemma test_dangerousValueChars_dollar:
  "of_char CHR ''$'' \<in> set value \<Longrightarrow> test dangerousValueChars value"
  unfolding dangerousValueChars_def test_OneOf in_class_chars
  by (rule bexI [of _ "of_char CHR ''$''"]) simp_all

lemma header_length_messages:
  "js ''Header key exceeds maximum length of '' @ decimal MAX_HEADER_KEY_LENGTH @ js '' characters''
     = js ''Header key exceeds maximum length of 256 characters''"
  "js ''Header value exceeds maximum length of '' @ decimal MAX_HEADER_VALUE_LENGTH @ js '' characters''
     = js ''Header value exceeds maximum length of 8192 characters''"
  by (simp_all add: MAX_HEADER_KEY_LENGTH_def MAX_HEADER_VALUE_LENGTH_def decimal_256 decimal_8192
      js_def)

lemma validateHeaderEntries_shape:
  assumes "key = [] \<or> value = [] \<or> 256 < length key \<or> 8192 < length value"
  shows "validateHeaderEntries ((key, value) # entries) =
     ([], Inl (if key = [] then js ''Header key must be a non-empty string''
               else if value = [] then js ''Header value must be a non-empty string''
               else if 256 < length key then
                 js ''Header key exceeds maximum length of 256 characters''
               else js ''Header value exceeds maximum length of 8192 characters''))"
  using assms
  by (simp add: header_length_messages throw_def)
    (auto simp: MAX_HEADER_KEY_LENGTH_def MAX_HEADER_VALUE_LENGTH_def)

lemma validateHeaderEntries_append:
  "snd (validateHeaderEntries before) = Inr () \<Longrightarrow>
   validateHeaderEntries (before @ entries) = validateHeaderEntries entries"
proof (induction before)
  case Nil
  show ?case by simp
next
  case (Cons e before)
  obtain k v where e: "e = (k, v)" by (cases e)
  from Cons.prems have "validateHeaderEntries ((k, v) # before) = validateHeaderEntries before"
    unfolding e by (simp add: throw_def log_throw_def split: if_splits)
  moreover from Cons.prems
  have "validateHeaderEntries ((k, v) # before @ entries) = validateHeaderEntries (before @ entries)"
    unfolding e by (simp add: throw_def log_throw_def split: if_splits)
  ultimately show ?case
    using Cons unfolding e by simp
qed

lemma validateHeaderEntries_step:
  "(\<exists>msg. snd (validateHeaderEntries (e # entries)) = Inl msg) \<or>
   validateHeaderEntries (e # entries) = validateHeaderEntries entries"
  by (cases e) (simp add: throw_def log_throw_def)

lemma validateHeaderEntries_fails:
  assumes "\<exists>msg. snd (validateHeaderEntries entries) = Inl msg"
  shows "\<exists>msg. snd (validateHeaderEntries (before @ entries)) = Inl msg"
proof (induction before)
  case Nil
  from assms show ?case by simp
next
  case (Cons e before)
  with validateHeaderEntries_step [of e "before @ entries"] show ?case by auto
qed

lemma validateHeaderEntries_value_checks:
  assumes "key \<noteq> []" "length key \<le> 256" "\<not> test dangerousKeyChars key"
    and "value \<noteq> []" "length value \<le> 8192"
  shows "snd (validateHeaderEntries ((key, value) # entries)) =
     (if test dangerousValueChars value then
        Inl (js ''Header value contains potentially dangerous characters'')
      else if list_ex (\<lambda>pattern. test pattern value) injectionPatterns then
        Inl (js ''Header value contains potential injection pattern'')
      else snd (validateHeaderEntries entries))"
  using assms
  by (simp add: MAX_HEADER_KEY_LENGTH_def MAX_HEADER_VALUE_LENGTH_def log_throw_def)

lemma validateHeaders_after_valid:
  "snd (validateHeaders (Some before)) = Inr () \<Longrightarrow>
   validateHeaders (Some (before @ entries)) = validateHeaderEntries entries"
  by (simp only: validateHeaders_def option.case validateHeaderEntries_append)

lemma validateHeaderEntries_quiet:
  "snd (validateHeaderEntries entries) = Inr () \<Longrightarrow> validateHeaderEntries entries = ([], Inr ())"
proof (induction entries)
  case Nil
  show ?case by (simp add: return_unit_def)
next
  case (Cons e entries)
  from validateHeaderEntries_step [of e entries] Cons show ?case by auto
qed

lemma validateHeaders_quiet:
  "snd (validateHeaders headers) = Inr () \<Longrightarrow> validateHeaders headers = ([], Inr ())"
  by (cases headers) (simp_all add: validateHeaders_def return_unit_def validateHeaderEntries_quiet)

section \<open>Facts about validateCurlCommand\<close>

lemma matches_notQuoteAfterSpace:
  assumes "x \<noteq> 0x27" "x \<noteq> 0x22"
  shows "q \<in> set (matches notQuoteAfterSpace (x # q))"
proof -
  have "x # q \<in> set (matches (StarOneOf [WhiteSpace]) ([] @ x # q))"
    by (rule matches_StarOneOf_I) simp
  moreover from assms have "q \<in> set (matches (NoneOf [Ch 0x27, Ch 0x22]) (x # q))"
    by (simp add: matches_NoneOf_iff in_class_def)
  ultimately show ?thesis
    unfolding notQuoteAfterSpace_def append_Nil by (rule matches_Seq_I)
qed

lemma test_dangerousPatterns_separator:
  assumes "sep \<in> set [js '';'', js ''|'', js ''&&'', js ''||'']" "x \<noteq> 0x27" "x \<noteq> 0x22"
  shows "list_ex (\<lambda>pattern. test pattern (p @ sep @ x # q)) dangerousPatterns"
proof -
  note tail = matches_notQuoteAfterSpace [OF assms(2,3), of q]
  have 1: "test (Seq (lit CHR '';'') notQuoteAfterSpace) (p @ js '';'' @ x # q)"
    by (rule test_I [of q]) (use tail in \<open>simp add: js_def lit_def in_class_def\<close>)
  have 2: "test (Seq (lit CHR ''|'') notQuoteAfterSpace) (p @ js ''|'' @ x # q)"
    by (rule test_I [of q]) (use tail in \<open>simp add: js_def lit_def in_class_def\<close>)
  have 3: "test (Seq (lit CHR ''&'') (Seq (lit CHR ''&'') notQuoteAfterSpace)) (p @ js ''&&'' @ x # q)"
    by (rule test_I [of q]) (use tail in \<open>simp add: js_def lit_def in_class_def\<close>)
  have 4: "test (Seq (lit CHR ''|'') (Seq (lit CHR ''|'') notQuoteAfterSpace)) (p @ js ''||'' @ x # q)"
    by (rule test_I [of q]) (use tail in \<open>simp add: js_def lit_def in_class_def\<close>)
  from assms(1) consider "sep = js '';''" | "sep = js ''|''" | "sep = js ''&&''" | "sep = js ''||''"
    by auto
  then show ?thesis
    by cases (use 1 2 3 4 in \<open>simp_all add: dangerousPatterns_def\<close>)
qed

lemma test_dangerousPatterns_backticks:
  "list_ex (\<lambda>pattern. test pattern (p @ of_char CHR ''`'' # m @ of_char CHR ''`'' # q))
     dangerousPatterns"
proof -
  let ?bt = "of_char CHR ''`'' :: code_unit"
  have "?bt \<in> set (m @ ?bt # q)" by simp
  from matches_up_to_first [OF this] obtain v
    where "v \<in> set (matches (Seq (StarNoneOf [Ch ?bt]) (OneOf [Ch ?bt])) (m @ ?bt # q))" ..
  then have "v \<in> set (matches (Seq (lit CHR ''`'') (Seq (StarNoneOf [Ch ?bt]) (lit CHR ''`'')))
      (?bt # m @ ?bt # q))"
    by (simp add: lit_def in_class_def)
  then have "test (Seq (lit CHR ''`'') (Seq (StarNoneOf [Ch ?bt]) (lit CHR ''`'')))
      (p @ ?bt # m @ ?bt # q)"
    by (rule test_I)
  then show ?thesis
    by (simp add: dangerousPatterns_def)
qed

lemma test_dangerousPatterns_substitution:
  "list_ex (\<lambda>pattern. test pattern (p @ js ''$('' @ m @ of_char CHR '')'' # q)) dangerousPatterns"
proof -
  let ?cl = "of_char CHR '')'' :: code_unit"
  have "?cl \<in> set (m @ ?cl # q)" by simp
  from matches_up_to_first [OF this] obtain v
    where "v \<in> set (matches (Seq (StarNoneOf [Ch ?cl]) (OneOf [Ch ?cl])) (m @ ?cl # q))" ..
  then have "v \<in> set (matches (Seq (lit CHR ''$'') (Seq (lit CHR ''('')
      (Seq (StarNoneOf [Ch ?cl]) (lit CHR '')'')))) (js ''$('' @ m @ ?cl # q))"
    by (simp add: lit_def in_class_def js_def)
  then have "test (Seq (lit CHR ''$'') (Seq (lit CHR ''('')
      (Seq (StarNoneOf [Ch ?cl]) (lit CHR '')'')))) (p @ js ''$('' @ m @ ?cl # q)"
    by (rule test_I)
  then show ?thesis
    by (simp add: dangerousPatterns_def)
qed

lemma validateCurlCommand_quiet:
  "snd (validateCurlCommand command) = Inr () \<Longrightarrow> validateCurlCommand command = ([], Inr ())"
  by (auto simp: validateCurlCommand_def throw_def log_throw_def return_unit_def
      split: if_splits)

section \<open>Facts about the model of fetchWithRetry\<close>

lemma validateRequest_blocked:
  assumes "snd (validateUrl (parseUrl env) url) = Inl msg \<or>
     (snd (validateUrl (parseUrl env) url) = Inr () \<and> snd (validateHeaders headers) = Inl msg)"
  shows "\<exists>lines. validateRequest env url headers = (lines, Inl msg)"
  using assms
  by (cases "validateUrl (parseUrl env) url"; cases "validateHeaders headers")
    (auto simp: validateRequest_def split: sum.splits)

lemma attempt_all_fail:
  assumes "snd (validateUrl (parseUrl env) url) = Inr ()"
    and "snd (validateHeaders headers) = Inr ()"
    and "snd (validateCurlCommand (assembleCommand env url headers)) = Inr ()"
    and "\<forall>n. isl (nativeFetch env n url headers)"
    and "\<forall>n. execAsync env n (assembleCommand env url headers) = Inl (err n)"
  shows "attempt env url headers w =
     (w\<lparr>fetched := fetched w @ [url],
        executed := executed w @ [assembleCommand env url headers],
        logged := logged w @ [failureLine env url (err (length (executed w)))]\<rparr>,
      Failed (err (length (executed w))))"
proof -
  from assms(4) obtain e where "nativeFetch env (length (fetched w)) url headers = Inl e"
    by (metis isl_def)
  moreover have "validateRequest env url headers = ([], Inr ())"
    by (simp add: validateRequest_def validateUrl_quiet [OF assms(1)]
        validateHeaders_quiet [OF assms(2)])
  ultimately show ?thesis
    using assms(5) by (simp add: attempt_def validateCurlCommand_quiet [OF assms(3)])
qed

lemma retryLoop_all_fail:
  assumes "snd (validateUrl (parseUrl env) url) = Inr ()"
    and "snd (validateHeaders headers) = Inr ()"
    and "snd (validateCurlCommand (assembleCommand env url headers)) = Inr ()"
    and "\<forall>n. isl (nativeFetch env n url headers)"
    and "\<forall>n. execAsync env n (assembleCommand env url headers) = Inl (err n)"
  shows "retryLoop env url headers retries w =
     (w\<lparr>fetched := fetched w @ replicate (Suc retries) url,
        executed := executed w @ replicate (Suc retries) (assembleCommand env url headers),
        logged := logged w @ map (\<lambda>n. failureLine env url (err n))
          [length (executed w)..<length (executed w) + Suc retries],
        waits := waits w + retries\<rparr>,
      Inl (err (length (executed w) + retries)))"
proof (induction retries arbitrary: w)
  case 0
  show ?case
    by (subst retryLoop.simps) (simp add: attempt_all_fail [OF assms])
next
  case (Suc retries)
  let ?w1 = "w\<lparr>fetched := fetched w @ [url],
               executed := executed w @ [assembleCommand env url headers],
               logged := logged w @ [failureLine env url (err (length (executed w)))]\<rparr>"
  have "retryLoop env url headers (Suc retries) w =
      retryLoop env url headers retries (?w1\<lparr>waits := waits ?w1 + 1\<rparr>)"
    by (subst retryLoop.simps) (simp add: attempt_all_fail [OF assms])
  moreover have "[length (executed w)..<length (executed w) + Suc (Suc retries)] =
      length (executed w) # [Suc (length (executed w))..<Suc (length (executed w)) + Suc retries]"
    by (simp add: upt_conv_Cons)
  ultimately show ?case
    by (simp add: Suc)
qed

section \<open>The repository's validator tests, replayed\<close>

text \<open>
  The expectations of \<open>security-validation.test.ts\<close> that involve no URL parsing hold of
  the definitions above.
\<close>

lemma validateCurlCommand_repository_tests:
  "validateCurlCommand (js ''curl -s -S --fail-with-body -L https://api.figma.com/files/abc'')
     = ([], Inr ())"
  "snd (validateCurlCommand (js ''rm -rf /'')) = Inl (js ''Command must start with curl'')"
  "snd (validateCurlCommand (js ''wget https://evil.com'')) = Inl (js ''Command must start with curl'')"
  "snd (validateCurlCommand (js ''curl https://api.figma.com; rm -rf /'')) =
     Inl (js ''Curl command contains potentially dangerous patterns'')"
  "snd (validateCurlCommand (js ''curl https://api.figma.com | sh'')) =
     Inl (js ''Curl command contains potentially dangerous patterns'')"
  "snd (validateCurlCommand (js ''curl https://api.figma.com && wget evil.com'')) =
     Inl (js ''Curl command contains potentially dangerous patterns'')"
  "snd (validateCurlCommand (js ''curl https://api.figma.com || rm file'')) =
     Inl (js ''Curl command contains potentially dangerous patterns'')"
  "snd (validateCurlCommand (js ''curl https://api.figma.com `whoami`'')) =
     Inl (js ''Curl command contains potentially dangerous patterns'')"
  "snd (validateCurlCommand (js ''curl https://api.figma.com $(id)'')) =
     Inl (js ''Curl command contains potentially dangerous patterns'')"
  "snd (validateCurlCommand []) = Inl (js ''Command must be a non-empty string'')"
  by code_simp+

lemma validateHeaders_repository_tests:
  "validateHeaders (Some [(js ''Authorization'', js ''Bearer token123''),
     (js ''X-Figma-Token'', js ''fig_token_123''), (js ''Content-Type'', js ''application/json'')])
     = ([], Inr ())"
  "snd (validateHeaders (Some [(js ''; rm -rf /'', js ''value'')])) =
     Inl (js ''Header key contains potentially dangerous characters'')"
  "snd (validateHeaders (Some [(js ''Authorization'', js ''Bearer `whoami`'')])) =
     Inl (js ''Header value contains potentially dangerous characters'')"
  "snd (validateHeaders (Some [(js ''Authorization'', js ''Bearer token<script>'')])) =
     Inl (js ''Header value contains potentially dangerous characters'')"
  "snd (validateHeaders (Some [(js ''Authorization'', js ''Bearer token${USER}'')])) =
     Inl (js ''Header value contains potentially dangerous characters'')"
  "snd (validateHeaders (Some [(js ''Custom-Header'', js ''value; test=dangerous'')])) =
     Inl (js ''Header value contains potential injection pattern'')"
  "snd (validateHeaders (Some [([], js ''value'')])) =
     Inl (js ''Header key must be a non-empty string'')"
  "snd (validateHeaders (Some [(js ''key'', [])])) =
     Inl (js ''Header value must be a non-empty string'')"
  by code_simp+

section \<open>validateUrl: the length ceiling\<close>

text \<open>
  C8. Every string longer than 2048 code units is rejected with
  \<open>URL exceeds maximum length of 2048 characters\<close>, whatever its content and whatever
  the URL parser would make of it: the ceiling is tested before the string is parsed,
  and nothing is logged.
\<close>

theorem validateUrl_too_long:
  "2048 < length url \<Longrightarrow>
   validateUrl newURL url = ([], Inl (js ''URL exceeds maximum length of 2048 characters''))"
  by (auto simp: validateUrl_def MAX_URL_LENGTH_def throw_def decimal_2048 js_def)

theorem validateUrl_too_long_witness:
  "2048 < length (replicate 2049 (0x61 :: code_unit)) \<and>
   validateUrl newURL_examples (replicate 2049 0x61) =
     ([], Inl (js ''URL exceeds maximum length of 2048 characters''))"
proof -
  have len: "2048 < length (replicate 2049 (0x61 :: code_unit))" by simp
  with validateUrl_too_long [OF len, of newURL_examples] show ?thesis by simp
qed

section \<open>validateUrl: shell metacharacters in the raw string\<close>

text \<open>
  C2, as stated: every string containing a shell metacharacter is rejected with
  \<open>URL contains potentially dangerous characters\<close>. The validator tests emptiness,
  length, URL syntax and scheme first, so \<open>javascript:alert(1)\<close>, which contains \<open>(\<close>,
  is rejected with \<open>Only HTTP and HTTPS URLs are allowed\<close> instead.
\<close>

theorem validateUrl_dangerous_characters_counterexample:
  "of_char CHR ''('' \<in> set (js ''javascript:alert(1)'') \<and>
   of_char CHR ''('' \<in> set shellMetacharacters \<and>
   snd (validateUrl newURL_examples (js ''javascript:alert(1)'')) =
     Inl (js ''Only HTTP and HTTPS URLs are allowed'') \<and>
   js ''Only HTTP and HTTPS URLs are allowed'' \<noteq>
     js ''URL contains potentially dangerous characters''"
proof -
  have "snd (validateUrl newURL_examples (js ''javascript:alert(1)'')) =
     Inl (js ''Only HTTP and HTTPS URLs are allowed'')"
    unfolding validateUrl_def newURL_examples_simps
    by (simp add: MAX_URL_LENGTH_def throw_def js_def)
  then show ?thesis
    by (simp add: js_def shellMetacharacters_def)
qed

text \<open>
  C2, amended: every string of at most 2048 code units that parses as a URL with scheme
  \<open>http\<close> or \<open>https\<close> and contains a shell metacharacter anywhere is rejected with
  \<open>URL contains potentially dangerous characters\<close>; the test reads the raw string, so
  the host name and the rest of what the parser returns play no part.
\<close>

theorem validateUrl_dangerous_characters:
  assumes "length url \<le> 2048"
    and "newURL url = Some u"
    and "protocol u = js ''https:'' \<or> protocol u = js ''http:''"
    and "c \<in> set url" and "c \<in> set shellMetacharacters"
  shows "snd (validateUrl newURL url) = Inl (js ''URL contains potentially dangerous characters'')"
proof -
  from assms(4) have "url \<noteq> []" by auto
  moreover from assms(4,5) have "test dangerousChars url"
    unfolding test_dangerousChars by blast
  ultimately show ?thesis
    using assms(1-3)
    by (simp add: validateUrl_def MAX_URL_LENGTH_def log_throw_def)
qed

theorem validateUrl_dangerous_characters_witness:
  "length (js ''https://api.figma.com/files/abc; rm -rf /'') \<le> 2048 \<and>
   newURL_examples (js ''https://api.figma.com/files/abc; rm -rf /'') =
     Some \<lparr>protocol = js ''https:'', hostname = js ''api.figma.com''\<rparr> \<and>
   of_char CHR '';'' \<in> set (js ''https://api.figma.com/files/abc; rm -rf /'') \<and>
   of_char CHR '';'' \<in> set shellMetacharacters \<and>
   snd (validateUrl newURL_examples (js ''https://api.figma.com/files/abc; rm -rf /'')) =
     Inl (js ''URL contains potentially dangerous characters'')"
proof -
  let ?url = "js ''https://api.figma.com/files/abc; rm -rf /''"
  let ?u = "\<lparr>protocol = js ''https:'', hostname = js ''api.figma.com''\<rparr>"
  have 1: "length ?url \<le> 2048" by (simp add: js_def)
  have 2: "newURL_examples ?url = Some ?u" by (rule newURL_examples_simps)
  have 3: "protocol ?u = js ''https:'' \<or> protocol ?u = js ''http:''" by simp
  have 4: "of_char CHR '';'' \<in> set ?url" by (simp add: js_def)
  have 5: "(of_char CHR '';'' :: code_unit) \<in> set shellMetacharacters"
    by (simp add: shellMetacharacters_def)
  from validateUrl_dangerous_characters [of ?url newURL_examples ?u, OF 1 2 3 4 5] 1 2 4 5 show ?thesis by blast
qed

section \<open>validateUrl: the domain allow-list\<close>

text \<open>
  C4. For every string within the length limit that parses as an \<open>http\<close> or \<open>https\<close>
  URL and contains no shell metacharacter (the empty string never parses, so the string
  is not empty), with \<open>h\<close> the lower-cased host name: \<open>validateUrl\<close> returns normally
  if and only if \<open>h\<close> is an allow-listed domain or ends with a dot followed by one, and
  otherwise it throws \<open>URL domain 'h' is not in the allowed list\<close>.
\<close>

theorem validateUrl_domain_allow_list:
  assumes "url \<noteq> []" and "length url \<le> 2048" and "newURL url = Some u"
    and "protocol u = js ''https:'' \<or> protocol u = js ''http:''"
    and "\<forall>c\<in>set url. c \<notin> set shellMetacharacters"
    and "h = toLowerCase (hostname u)"
  shows "(snd (validateUrl newURL url) = Inr () \<longleftrightarrow>
           (\<exists>d\<in>set ALLOWED_FIGMA_DOMAINS. h = d \<or> (\<exists>q. h = q @ js ''.'' @ d))) \<and>
         (snd (validateUrl newURL url) \<noteq> Inr () \<longrightarrow>
           snd (validateUrl newURL url) =
             Inl (js ''URL domain '' @ [0x27] @ h @ [0x27] @ js '' is not in the allowed list''))"
  unfolding validateUrl_reaches_domain_check [of url newURL u, OF assms(1-5)] assms(6) isAllowedDomain_iff
  by (simp add: return_unit_def log_throw_def)

theorem validateUrl_domain_allow_list_witness:
  "snd (validateUrl newURL_examples (js ''https://subdomain.api.figma.com/files/abc'')) = Inr () \<and>
   js ''subdomain.api.figma.com'' = js ''subdomain'' @ js ''.'' @ js ''api.figma.com'' \<and>
   snd (validateUrl newURL_examples (js ''https://evil.com/malicious'')) =
     Inl (js ''URL domain '' @ [0x27] @ js ''evil.com'' @ [0x27] @ js '' is not in the allowed list'')"
proof -
  let ?good = "js ''https://subdomain.api.figma.com/files/abc''"
  let ?bad = "js ''https://evil.com/malicious''"
  let ?ug = "\<lparr>protocol = js ''https:'', hostname = js ''subdomain.api.figma.com''\<rparr>"
  let ?ub = "\<lparr>protocol = js ''https:'', hostname = js ''evil.com''\<rparr>"
  have split: "js ''subdomain.api.figma.com'' = js ''subdomain'' @ js ''.'' @ js ''api.figma.com''"
    by (simp add: js_def)
  have g: "?good \<noteq> []" "length ?good \<le> 2048" "newURL_examples ?good = Some ?ug"
    "protocol ?ug = js ''https:'' \<or> protocol ?ug = js ''http:''"
    "\<forall>c\<in>set ?good. c \<notin> set shellMetacharacters"
    "js ''subdomain.api.figma.com'' = toLowerCase (hostname ?ug)"
    by (simp_all add: newURL_examples_simps)
      (simp_all add: js_def shellMetacharacters_def toLowerCase_def lowerUnit_def)
  have b: "?bad \<noteq> []" "length ?bad \<le> 2048" "newURL_examples ?bad = Some ?ub"
    "protocol ?ub = js ''https:'' \<or> protocol ?ub = js ''http:''"
    "\<forall>c\<in>set ?bad. c \<notin> set shellMetacharacters"
    "js ''evil.com'' = toLowerCase (hostname ?ub)"
    by (simp_all add: newURL_examples_simps)
      (simp_all add: js_def shellMetacharacters_def toLowerCase_def lowerUnit_def)
  have allowed: "\<exists>d\<in>set ALLOWED_FIGMA_DOMAINS.
      js ''subdomain.api.figma.com'' = d \<or> (\<exists>q. js ''subdomain.api.figma.com'' = q @ js ''.'' @ d)"
    using split by (auto simp: ALLOWED_FIGMA_DOMAINS_set)
  have "\<not> isAllowedDomain (js ''evil.com'')"
    by (simp add: isAllowedDomain_def ALLOWED_FIGMA_DOMAINS_def endsWith_def js_def)
  then have refused: "\<not> (\<exists>d\<in>set ALLOWED_FIGMA_DOMAINS.
      js ''evil.com'' = d \<or> (\<exists>q. js ''evil.com'' = q @ js ''.'' @ d))"
    by (simp add: isAllowedDomain_iff)
  from validateUrl_domain_allow_list [of ?good newURL_examples ?ug, OF g] allowed
  have 1: "snd (validateUrl newURL_examples ?good) = Inr ()" by blast
  from validateUrl_domain_allow_list [of ?bad newURL_examples ?ub, OF b] refused
  have 2: "snd (validateUrl newURL_examples ?bad) =
     Inl (js ''URL domain '' @ [0x27] @ js ''evil.com'' @ [0x27] @ js '' is not in the allowed list'')"
    by blast
  from 1 2 split show ?thesis by blast
qed

section \<open>validateUrl: percent-encoded metacharacters\<close>

text \<open>
  C10. Every string of at most 2048 code units that parses as an \<open>http\<close> or \<open>https\<close> URL
  with an allow-listed host name and contains no literal shell metacharacter is accepted,
  and nothing is logged: the validator never decodes the string, so \<open>%3B\<close> for \<open>;\<close> or
  \<open>%24%28\<close> for \<open>$(\<close> in the path or query pass.
\<close>

theorem validateUrl_percent_encoded:
  assumes "url \<noteq> []" and "length url \<le> 2048" and "newURL url = Some u"
    and "protocol u = js ''https:'' \<or> protocol u = js ''http:''"
    and "\<forall>c\<in>set url. c \<notin> set shellMetacharacters"
    and "isAllowedDomain (toLowerCase (hostname u))"
  shows "validateUrl newURL url = ([], Inr ())"
  unfolding validateUrl_reaches_domain_check [of url newURL u, OF assms(1-5)]
  using assms(6) by (simp add: return_unit_def)

theorem validateUrl_percent_encoded_witness:
  "validateUrl newURL_examples (js ''https://api.figma.com/v1/files/a%3Bb%24%28id%29'') = ([], Inr ())"
proof -
  let ?url = "js ''https://api.figma.com/v1/files/a%3Bb%24%28id%29''"
  let ?u = "\<lparr>protocol = js ''https:'', hostname = js ''api.figma.com''\<rparr>"
  have h: "?url \<noteq> []" "length ?url \<le> 2048" "newURL_examples ?url = Some ?u"
    "protocol ?u = js ''https:'' \<or> protocol ?u = js ''http:''"
    "\<forall>c\<in>set ?url. c \<notin> set shellMetacharacters"
    "isAllowedDomain (toLowerCase (hostname ?u))"
    by (simp_all add: newURL_examples_simps)
      (simp_all add: js_def shellMetacharacters_def toLowerCase_def lowerUnit_def
         isAllowedDomain_def ALLOWED_FIGMA_DOMAINS_def)
  from validateUrl_percent_encoded [of ?url newURL_examples ?u, OF h] show ?thesis .
qed

section \<open>validateCurlCommand\<close>

text \<open>
  C9. Every non-empty command that begins with \<open>curl \<close> once trimmed and matches none of
  the six patterns is accepted, with nothing logged; no pattern mentions \<open><\<close> or \<open>>\<close>, so
  a command with an unquoted redirection such as
  \<open>curl https://api.figma.com/x > /tmp/out\<close> is accepted.
\<close>

theorem validateCurlCommand_accepts_unmatched:
  assumes "command \<noteq> []"
    and "startsWith (trim command) (js ''curl '')"
    and "\<not> list_ex (\<lambda>pattern. test pattern command) dangerousPatterns"
  shows "validateCurlCommand command = ([], Inr ())"
  using assms by (simp add: validateCurlCommand_def return_unit_def)

theorem validateCurlCommand_accepts_unmatched_witness:
  "of_char CHR ''>'' \<in> set (js ''curl https://api.figma.com/x > /tmp/out'') \<and>
   validateCurlCommand (js ''curl https://api.figma.com/x > /tmp/out'') = ([], Inr ())"
proof -
  let ?c = "js ''curl https://api.figma.com/x > /tmp/out''"
  have 1: "?c \<noteq> []" by (simp add: js_def)
  have 2: "startsWith (trim ?c) (js ''curl '')" by code_simp
  have 3: "\<not> list_ex (\<lambda>pattern. test pattern ?c) dangerousPatterns" by code_simp
  have 4: "of_char CHR ''>'' \<in> set ?c" by (simp add: js_def)
  from validateCurlCommand_accepts_unmatched [OF 1 2 3] 4 show ?thesis by blast
qed

text \<open>
  What the six patterns do catch: a \<open>;\<close>, \<open>|\<close>, \<open>&&\<close> or \<open>||\<close> directly followed by a
  character other than a quote, two backticks, and \<open>$(\<close> with a later \<open>)\<close>.
\<close>

lemma validateCurlCommand_rejects_listed_shapes:
  assumes "startsWith (trim command) (js ''curl '')"
    and "(command = p @ sep @ x # q \<and> sep \<in> set [js '';'', js ''|'', js ''&&'', js ''||''] \<and>
          x \<noteq> 0x27 \<and> x \<noteq> 0x22) \<or>
         command = p @ of_char CHR ''`'' # m @ of_char CHR ''`'' # q \<or>
         command = p @ js ''$('' @ m @ of_char CHR '')'' # q"
  shows "snd (validateCurlCommand command) =
     Inl (js ''Curl command contains potentially dangerous patterns'')"
proof -
  from assms(1) have "command \<noteq> []"
    by (auto simp: startsWith_def trim_def js_def)
  moreover from assms(2) consider
    (separator) "command = p @ sep @ x # q"
      "sep \<in> set [js '';'', js ''|'', js ''&&'', js ''||'']" "x \<noteq> 0x27" "x \<noteq> 0x22"
    | (backticks) "command = p @ of_char CHR ''`'' # m @ of_char CHR ''`'' # q"
    | (substitution) "command = p @ js ''$('' @ m @ of_char CHR '')'' # q"
    by blast
  then have "list_ex (\<lambda>pattern. test pattern command) dangerousPatterns"
  proof cases
    case separator
    from test_dangerousPatterns_separator [OF separator(2-4), of p q] show ?thesis
      unfolding separator(1) .
  next
    case backticks
    show ?thesis unfolding backticks by (rule test_dangerousPatterns_backticks)
  next
    case substitution
    show ?thesis unfolding substitution by (rule test_dangerousPatterns_substitution)
  qed
  ultimately show ?thesis
    using assms(1) by (simp add: validateCurlCommand_def log_throw_def)
qed

text \<open>
  C1 asks that no command with an unquoted \<open>;\<close>, \<open>|\<close>, \<open>&&\<close> or \<open>||\<close> is accepted. The
  four separator patterns end in \<open>[^'"]\<close>, so a separator directly followed by a quote
  character matches none of them: in \<open>curl x;"rm" -rf /\<close> no quote precedes the \<open>;\<close>, the
  shell would run \<open>rm\<close> as a second command, and the validator returns normally.
\<close>

theorem validateCurlCommand_admits_separator_before_quote:
  \<open>of_char CHR '';'' \<in> set (js ''curl x;"rm" -rf /'') \<and>
   0x22 \<notin> set (takeWhile (\<lambda>c. c \<noteq> of_char CHR '';'') (js ''curl x;"rm" -rf /'')) \<and>
   0x27 \<notin> set (takeWhile (\<lambda>c. c \<noteq> of_char CHR '';'') (js ''curl x;"rm" -rf /'')) \<and>
   validateCurlCommand (js ''curl x;"rm" -rf /'') = ([], Inr ())\<close>
  by code_simp

section \<open>validateHeaders: empty and overlong keys and values\<close>

text \<open>
  C7, as stated: a header map with an empty or overlong key or value is rejected with
  the message of that constraint. The loop reports the first violation it meets, in the
  order of the pairs: when a pair with a dangerous key comes before the pair with the
  empty key, the message is \<open>Header key contains potentially dangerous characters\<close>.
\<close>

theorem validateHeaders_input_shape_counterexample:
  "snd (validateHeaders (Some [(js ''k;'', js ''v''), ([], js ''v'')])) =
     Inl (js ''Header key contains potentially dangerous characters'') \<and>
   js ''Header key contains potentially dangerous characters'' \<notin>
     set [js ''Header key must be a non-empty string'',
          js ''Header value must be a non-empty string'',
          js ''Header key exceeds maximum length of 256 characters'',
          js ''Header value exceeds maximum length of 8192 characters'']"
  by code_simp

text \<open>
  C7, amended: \<open>validateHeaders(undefined)\<close> returns normally. A header map containing
  a pair whose key or value is empty, whose key is longer than 256 or whose value is
  longer than 8192 is always rejected; and when the pairs before that pair pass
  validation (as in a map of one pair), the message is that of the first constraint the
  pair violates, in the order empty key, empty value, overlong key, overlong value, and
  nothing is logged.
\<close>

theorem validateHeaders_input_shape:
  assumes "key = [] \<or> value = [] \<or> 256 < length key \<or> 8192 < length value"
  shows "validateHeaders None = ([], Inr ()) \<and>
     (\<exists>msg. snd (validateHeaders (Some (before @ (key, value) # after))) = Inl msg) \<and>
     (snd (validateHeaders (Some before)) = Inr () \<longrightarrow>
        validateHeaders (Some (before @ (key, value) # after)) =
          ([], Inl (if key = [] then js ''Header key must be a non-empty string''
                    else if value = [] then js ''Header value must be a non-empty string''
                    else if 256 < length key then
                      js ''Header key exceeds maximum length of 256 characters''
                    else js ''Header value exceeds maximum length of 8192 characters'')))"
proof -
  let ?msg = "if key = [] then js ''Header key must be a non-empty string''
              else if value = [] then js ''Header value must be a non-empty string''
              else if 256 < length key then
                js ''Header key exceeds maximum length of 256 characters''
              else js ''Header value exceeds maximum length of 8192 characters''"
  have here: "validateHeaderEntries ((key, value) # after) = ([], Inl ?msg)"
    by (rule validateHeaderEntries_shape [OF assms])
  have 1: "validateHeaders None = ([], Inr ())"
    by (simp add: validateHeaders_def return_unit_def)
  from here have "\<exists>msg. snd (validateHeaderEntries ((key, value) # after)) = Inl msg"
    by (simp only: snd_conv) blast
  then have "\<exists>msg. snd (validateHeaderEntries (before @ (key, value) # after)) = Inl msg"
    by (rule validateHeaderEntries_fails)
  then have 2: "\<exists>msg. snd (validateHeaders (Some (before @ (key, value) # after))) = Inl msg"
    by (simp only: validateHeaders_def option.case)
  have 3: "validateHeaders (Some (before @ (key, value) # after)) = ([], Inl ?msg)"
    if "snd (validateHeaders (Some before)) = Inr ()"
  proof -
    from that have "snd (validateHeaderEntries before) = Inr ()"
      by (simp only: validateHeaders_def option.case)
    then have "validateHeaderEntries (before @ (key, value) # after) =
        validateHeaderEntries ((key, value) # after)"
      by (rule validateHeaderEntries_append)
    with here show ?thesis
      by (simp only: validateHeaders_def option.case)
  qed
  from 1 2 3 show ?thesis by blast
qed

theorem validateHeaders_input_shape_witness:
  "validateHeaders None = ([], Inr ()) \<and>
   snd (validateHeaders (Some [(js ''Accept'', js ''application/json'')])) = Inr () \<and>
   length (replicate 8193 (0x62 :: code_unit)) = 8193 \<and>
   validateHeaders
     (Some ([(js ''Accept'', js ''application/json'')] @ (js ''key'', replicate 8193 0x62) # [])) =
     ([], Inl (js ''Header value exceeds maximum length of 8192 characters''))"
proof -
  let ?before = "[(js ''Accept'', js ''application/json'')]"
  let ?v = "replicate 8193 (0x62 :: code_unit)"
  have ok: "snd (validateHeaders (Some ?before)) = Inr ()" by code_simp
  have k: "js ''key'' \<noteq> []" "\<not> 256 < length (js ''key'')" by (simp_all add: js_def)
  have v: "?v \<noteq> []" "8192 < length ?v" by simp_all
  from v(2) have shape: "js ''key'' = [] \<or> ?v = [] \<or> 256 < length (js ''key'') \<or> 8192 < length ?v"
    by blast
  from validateHeaders_input_shape [OF shape, of ?before "[]"] ok k v show ?thesis
    by simp
qed

section \<open>validateHeaders: injection patterns\<close>

text \<open>
  C5, as stated: a value with a \<open>$(\<close> or \<open>${\<close> shape is rejected with the
  injection-pattern message. Such a value contains \<open>$\<close>, which the character class
  tested just before rejects: the message is
  \<open>Header value contains potentially dangerous characters\<close>.
\<close>

theorem validateHeaders_injection_shapes_counterexample:
  "snd (validateHeaders (Some [(js ''Authorization'', js ''Bearer token$(whoami)'')])) =
     Inl (js ''Header value contains potentially dangerous characters'') \<and>
   js ''Header value contains potentially dangerous characters'' \<noteq>
     js ''Header value contains potential injection pattern''"
  by code_simp

text \<open>
  C5, amended. Take a pair whose predecessors pass validation, whose key passes its
  checks and whose value is neither empty nor longer than 8192. If the value has none of
  the value-side dangerous characters and contains \<open>;\<close>, optional white space, an
  identifier, optional white space and \<open>=\<close>, or contains \<open>&&\<close> or \<open>||\<close> after which the
  value does not hold exactly one double quote, the map is rejected with
  \<open>Header value contains potential injection pattern\<close>. If the value contains \<open>$(\<close> or
  \<open>${\<close>, the map is rejected with
  \<open>Header value contains potentially dangerous characters\<close>.
\<close>

theorem validateHeaders_injection_shapes:
  assumes "snd (validateHeaders (Some before)) = Inr ()"
    and "key \<noteq> []" "length key \<le> 256" "\<not> test dangerousKeyChars key"
    and "value \<noteq> []" "length value \<le> 8192"
  shows
    "(\<not> test dangerousValueChars value \<and>
      ((value = p @ js '';'' @ ws1 @ c # ident @ ws2 @ js ''='' @ q \<and>
        list_all isWhiteSpace ws1 \<and> isIdentStart c \<and> list_all isIdentChar ident \<and>
        list_all isWhiteSpace ws2) \<or>
       ((value = p @ js ''&&'' @ q \<or> value = p @ js ''||'' @ q) \<and>
        length (filter (\<lambda>x. x = 0x22) q) \<noteq> 1))
      \<longrightarrow> snd (validateHeaders (Some (before @ (key, value) # after))) =
            Inl (js ''Header value contains potential injection pattern'')) \<and>
     (value = p @ js ''$('' @ q \<or> value = p @ js ''${'' @ q
      \<longrightarrow> snd (validateHeaders (Some (before @ (key, value) # after))) =
            Inl (js ''Header value contains potentially dangerous characters''))"
proof -
  note here = validateHeaders_after_valid [OF assms(1)]
    validateHeaderEntries_value_checks [OF assms(2-6)]
  have patterns: "list_ex (\<lambda>pattern. test pattern value) injectionPatterns"
    if "(value = p @ js '';'' @ ws1 @ c # ident @ ws2 @ js ''='' @ q \<and>
        list_all isWhiteSpace ws1 \<and> isIdentStart c \<and> list_all isIdentChar ident \<and>
        list_all isWhiteSpace ws2) \<or>
       ((value = p @ js ''&&'' @ q \<or> value = p @ js ''||'' @ q) \<and>
        length (filter (\<lambda>x. x = 0x22) q) \<noteq> 1)"
  proof -
    from that consider
      "test variableAssignment value" | "test andChain value" | "test orChain value"
      using test_variableAssignment test_andChain test_orChain by blast
    then show ?thesis
      by cases (simp_all add: injectionPatterns_def)
  qed
  have dollar: "test dangerousValueChars value"
    if "value = p @ js ''$('' @ q \<or> value = p @ js ''${'' @ q"
    using that by (intro test_dangerousValueChars_dollar) (auto simp: js_def)
  from patterns dollar show ?thesis
    unfolding here by auto
qed

theorem validateHeaders_injection_shapes_witness:
  "snd (validateHeaders (Some ([] @ (js ''Custom-Header'', js ''value; test=dangerous'') # []))) =
     Inl (js ''Header value contains potential injection pattern'') \<and>
   snd (validateHeaders (Some ([] @ (js ''Authorization'', js ''Bearer token$(whoami)'') # []))) =
     Inl (js ''Header value contains potentially dangerous characters'')"
proof -
  have before: "snd (validateHeaders (Some [])) = Inr ()" by code_simp
  let ?k1 = "js ''Custom-Header''" and ?v1 = "js ''value; test=dangerous''"
  let ?k2 = "js ''Authorization''" and ?v2 = "js ''Bearer token$(whoami)''"
  have k1: "?k1 \<noteq> []" "length ?k1 \<le> 256" "\<not> test dangerousKeyChars ?k1"
    and k2: "?k2 \<noteq> []" "length ?k2 \<le> 256" "\<not> test dangerousKeyChars ?k2"
    and v1: "?v1 \<noteq> []" "length ?v1 \<le> 8192"
    and v2: "?v2 \<noteq> []" "length ?v2 \<le> 8192"
    by code_simp+
  have clean: "\<not> test dangerousValueChars ?v1" by code_simp
  have shape1: "?v1 = js ''value'' @ js '';'' @ js '' '' @ of_char CHR ''t'' # js ''est'' @ [] @ js ''='' @ js ''dangerous''"
    "list_all isWhiteSpace (js '' '')" "isIdentStart (of_char CHR ''t'')"
    "list_all isIdentChar (js ''est'')" "list_all isWhiteSpace []"
    by code_simp+
  have shape2: "?v2 = js ''Bearer token'' @ js ''$('' @ js ''whoami)''"
    by code_simp
  from validateHeaders_injection_shapes [OF before k1 v1,
      of "js ''value''" "js '' ''" "of_char CHR ''t''" "js ''est''" "[]" "js ''dangerous''" "[]"]
    clean shape1
  have 1: "snd (validateHeaders (Some ([] @ (?k1, ?v1) # []))) =
     Inl (js ''Header value contains potential injection pattern'')"
    by blast
  from validateHeaders_injection_shapes [OF before k2 v2,
      of "js ''Bearer token''" _ _ _ _ "js ''whoami)''" "[]"] shape2
  have 2: "snd (validateHeaders (Some ([] @ (?k2, ?v2) # []))) =
     Inl (js ''Header value contains potentially dangerous characters'')"
    by blast
  from 1 2 show ?thesis by blast
qed

text \<open>
  The lookahead \<open>(?![^"]*"[^"]*$)\<close> takes a chain operator for quoted whenever exactly
  one double quote follows it, whatever precedes: the value \<open>x && y"\<close>, whose \<open>&&\<close> stands
  outside any pair of quotes, is accepted.
\<close>

lemma validateHeaders_accepts_chain_before_one_quote:
  \<open>validateHeaders (Some [(js ''X-Note'', js ''x && y"'')]) = ([], Inr ())\<close>
  by code_simp

section \<open>fetchWithRetry\<close>

text \<open>
  C3. When the URL fails validation, or the URL passes and the header map fails, the call
  rejects with \<open>Security validation failed: \<close> followed by the validator's message,
  without any call of native fetch or shell exec and without any backoff wait.
\<close>

theorem fetchWithRetry_validation_gate:
  assumes "snd (validateUrl (parseUrl env) url) = Inl msg \<or>
     (snd (validateUrl (parseUrl env) url) = Inr () \<and> snd (validateHeaders headers) = Inl msg)"
  shows "snd (fetchWithRetry env url headers) = Inl (js ''Security validation failed: '' @ msg) \<and>
     fetched (fst (fetchWithRetry env url headers)) = [] \<and>
     executed (fst (fetchWithRetry env url headers)) = [] \<and>
     waits (fst (fetchWithRetry env url headers)) = 0"
proof -
  from validateRequest_blocked [OF assms] obtain lines
    where "validateRequest env url headers = (lines, Inl msg)" ..
  then have "attempt env url headers io0 = (io0\<lparr>logged := logged io0 @ lines\<rparr>, Blocked msg)"
    by (simp add: attempt_def)
  then show ?thesis
    by (simp add: fetchWithRetry_def io0_def retryLoop.simps)
qed

theorem fetchWithRetry_validation_gate_witness:
  "snd (fetchWithRetry failing_environment (js ''https://api.figma.com/files/abc; rm -rf /'') None) =
     Inl (js ''Security validation failed: '' @ js ''URL contains potentially dangerous characters'') \<and>
   fetched (fst (fetchWithRetry failing_environment
     (js ''https://api.figma.com/files/abc; rm -rf /'') None)) = [] \<and>
   executed (fst (fetchWithRetry failing_environment
     (js ''https://api.figma.com/files/abc; rm -rf /'') None)) = [] \<and>
   snd (fetchWithRetry failing_environment (js ''https://subdomain.api.figma.com/files/abc'')
     (Some [(js ''Custom-Header'', js ''value; test=dangerous'')])) =
     Inl (js ''Security validation failed: '' @ js ''Header value contains potential injection pattern'')"
proof -
  let ?bad = "js ''https://api.figma.com/files/abc; rm -rf /''"
  let ?good = "js ''https://subdomain.api.figma.com/files/abc''"
  let ?headers = "Some [(js ''Custom-Header'', js ''value; test=dangerous'')]"
  have 1: "snd (validateUrl (parseUrl failing_environment) ?bad) =
      Inl (js ''URL contains potentially dangerous characters'')"
    unfolding failing_environment_def environment.simps by code_simp
  have 2: "snd (validateUrl (parseUrl failing_environment) ?good) = Inr ()"
    unfolding failing_environment_def environment.simps by code_simp
  have 3: "snd (validateHeaders ?headers) =
      Inl (js ''Header value contains potential injection pattern'')"
    by code_simp
  from 1 have url: "snd (validateUrl (parseUrl failing_environment) ?bad) =
        Inl (js ''URL contains potentially dangerous characters'') \<or>
      (snd (validateUrl (parseUrl failing_environment) ?bad) = Inr () \<and>
       snd (validateHeaders None) = Inl (js ''URL contains potentially dangerous characters''))"
    by blast
  from 2 3 have hdr: "snd (validateUrl (parseUrl failing_environment) ?good) =
        Inl (js ''Header value contains potential injection pattern'') \<or>
      (snd (validateUrl (parseUrl failing_environment) ?good) = Inr () \<and>
       snd (validateHeaders ?headers) = Inl (js ''Header value contains potential injection pattern''))"
    by blast
  from fetchWithRetry_validation_gate [OF url] fetchWithRetry_validation_gate [OF hdr]
  show ?thesis by blast
qed

text \<open>
  C6. When the URL, the headers and the assembled command line pass validation, the
  budget is at least one, and native fetch and shell exec reject at every call, the
  call makes exactly the configured number of attempts (that many calls of native fetch,
  of shell exec and of the logger, one wait between consecutive attempts) and rejects
  with the error of the last shell-exec call as it is, without the security prefix.
\<close>

theorem fetchWithRetry_retry_budget:
  assumes "snd (validateUrl (parseUrl env) url) = Inr ()"
    and "snd (validateHeaders headers) = Inr ()"
    and "snd (validateCurlCommand (assembleCommand env url headers)) = Inr ()"
    and "0 < maxAttempts env"
    and "\<forall>n. isl (nativeFetch env n url headers)"
    and "\<forall>n. execAsync env n (assembleCommand env url headers) = Inl (err n)"
  shows "fetchWithRetry env url headers =
     (\<lparr>fetched = replicate (maxAttempts env) url,
       executed = replicate (maxAttempts env) (assembleCommand env url headers),
       logged = map (\<lambda>n. failureLine env url (err n)) [0..<maxAttempts env],
       waits = maxAttempts env - 1\<rparr>,
      Inl (err (maxAttempts env - 1))) \<and>
     length (fetched (fst (fetchWithRetry env url headers))) = maxAttempts env \<and>
     length (executed (fst (fetchWithRetry env url headers))) = maxAttempts env \<and>
     length (logged (fst (fetchWithRetry env url headers))) = maxAttempts env"
proof -
  from assms(4) have "Suc (maxAttempts env - 1) = maxAttempts env" by simp
  then have "fetchWithRetry env url headers =
     (\<lparr>fetched = replicate (maxAttempts env) url,
       executed = replicate (maxAttempts env) (assembleCommand env url headers),
       logged = map (\<lambda>n. failureLine env url (err n)) [0..<maxAttempts env],
       waits = maxAttempts env - 1\<rparr>,
      Inl (err (maxAttempts env - 1)))"
    by (simp add: fetchWithRetry_def io0_def retryLoop_all_fail [OF assms(1-3,5,6)])
  then show ?thesis by simp
qed

theorem fetchWithRetry_retry_budget_witness:
  "fetchWithRetry failing_environment (js ''https://subdomain.api.figma.com/files/abc'')
     (Some [(js ''Authorization'', js ''Bearer fig_token_123'')]) =
   (\<lparr>fetched = replicate 3 (js ''https://subdomain.api.figma.com/files/abc''),
     executed = replicate 3
       (js ''curl -s -S --fail-with-body -L -H '' @ [0x27] @ js ''Authorization: Bearer fig_token_123''
          @ [0x27] @ js '' '' @ [0x27] @ js ''https://subdomain.api.figma.com/files/abc'' @ [0x27]),
     logged = [js ''[fetchWithRetry] attempt failed: curl failed, call 1'',
               js ''[fetchWithRetry] attempt failed: curl failed, call 2'',
               js ''[fetchWithRetry] attempt failed: curl failed, call 3''],
     waits = 2\<rparr>,
    Inl (js ''curl failed, call 3''))"
proof -
  let ?url = "js ''https://subdomain.api.figma.com/files/abc''"
  let ?headers = "Some [(js ''Authorization'', js ''Bearer fig_token_123'')]"
  let ?err = "\<lambda>n. js ''curl failed, call '' @ decimal (n + 1)"
  have command: "assembleCommand failing_environment ?url ?headers =
      js ''curl -s -S --fail-with-body -L -H '' @ [0x27] @ js ''Authorization: Bearer fig_token_123''
        @ [0x27] @ js '' '' @ [0x27] @ js ''https://subdomain.api.figma.com/files/abc'' @ [0x27]"
    by (simp add: failing_environment_def quoted_curl_def js_def)
  have 1: "snd (validateUrl (parseUrl failing_environment) ?url) = Inr ()"
    unfolding failing_environment_def environment.simps by code_simp
  have 2: "snd (validateHeaders ?headers) = Inr ()" by code_simp
  have 3: "snd (validateCurlCommand (assembleCommand failing_environment ?url ?headers)) = Inr ()"
    unfolding command by code_simp
  have 4: "0 < maxAttempts failing_environment"
    by (simp add: failing_environment_def)
  have 5: "\<forall>n. isl (nativeFetch failing_environment n ?url ?headers)"
    by (simp add: failing_environment_def)
  have 6: "\<forall>n. execAsync failing_environment n (assembleCommand failing_environment ?url ?headers)
      = Inl (?err n)"
    by (simp add: failing_environment_def)
  have budget: "maxAttempts failing_environment = 3"
    by (simp add: failing_environment_def)
  have lines: "map (\<lambda>n. failureLine failing_environment ?url (?err n)) [0..<3] =
      [js ''[fetchWithRetry] attempt failed: curl failed, call 1'',
       js ''[fetchWithRetry] attempt failed: curl failed, call 2'',
       js ''[fetchWithRetry] attempt failed: curl failed, call 3'']"
    by (simp add: failing_environment_def upt_rec decimal.simps js_def)
  from fetchWithRetry_retry_budget [of failing_environment ?url ?headers ?err, OF 1 2 3 4 5 6]
  have "fetchWithRetry failing_environment ?url ?headers =
     (\<lparr>fetched = replicate 3 ?url,
       executed = replicate 3 (assembleCommand failing_environment ?url ?headers),
       logged = map (\<lambda>n. failureLine failing_environment ?url (?err n)) [0..<3],
       waits = 2\<rparr>,
      Inl (?err 2))"
    unfolding budget by simp
  then show ?thesis
    unfolding command lines by (simp add: decimal.simps js_def)
qed

end
